theory Spec2Isabelle
  imports Complex_Main "HOL-Library.Word"
begin

section \<open>Configuration, errors and observable events\<close>

text \<open>
  The command-line arguments of \<^verbatim>\<open>assignment.py\<close> that the modelled functions read.
  The integer options are Python ints, hence \<^typ>\<open>int\<close>; \<open>learn_rate\<close>, \<open>beta1\<close>,
  \<open>img_dir\<close>, \<open>num_data_threads\<close>, \<open>log_every\<close> and \<open>device\<close> only reach library
  constructors and are left out.
\<close>

record config =
  out_dir :: string
  mode :: string
  restore_checkpoint :: bool
  z_dim :: int
  batch_size :: int
  num_epochs :: int
  num_gen_updates :: int
  save_every :: int
  scale_model :: int

definition default_args :: config where
  "default_args =
     \<lparr>out_dir = ''./output'', mode = ''train'', restore_checkpoint = False,
      z_dim = 100, batch_size = 128, num_epochs = 10, num_gen_updates = 2,
      save_every = 500, scale_model = 1\<rparr>"

text \<open>The Python exceptions that the modelled code can raise.\<close>

datatype error = ZeroDivisionError | IndexError | ValueError

type_synonym pixel = "8 word option"

text \<open>
  The effectful library calls of the program, in the order in which it makes them:
  \<open>optimizer.apply_gradients\<close> of either network (with the iteration number),
  \<open>manager.save()\<close>, \<open>fid_function\<close>, \<open>checkpoint.restore\<close> (with whether a
  checkpoint was there) and \<open>imwrite\<close> (with the index \<open>i\<close> of the file
  \<open>out_dir/i.png\<close> and the pixels written). Printing is not modelled.
\<close>

datatype event =
    ApplyGenerator nat
  | ApplyDiscriminator nat
  | ManagerSave
  | FidEval nat
  | RestoreAttempt bool
  | Imwrite nat "pixel list"

fun generator_updates :: "event list \<Rightarrow> nat list" where
  "generator_updates [] = []"
| "generator_updates (ApplyGenerator i # evs) = i # generator_updates evs"
| "generator_updates (_ # evs) = generator_updates evs"

fun discriminator_updates :: "event list \<Rightarrow> nat list" where
  "discriminator_updates [] = []"
| "discriminator_updates (ApplyDiscriminator i # evs) = i # discriminator_updates evs"
| "discriminator_updates (_ # evs) = discriminator_updates evs"

fun fid_evaluations :: "event list \<Rightarrow> nat list" where
  "fid_evaluations [] = []"
| "fid_evaluations (FidEval i # evs) = i # fid_evaluations evs"
| "fid_evaluations (_ # evs) = fid_evaluations evs"

fun restore_attempts :: "event list \<Rightarrow> nat" where
  "restore_attempts [] = 0"
| "restore_attempts (RestoreAttempt _ # evs) = Suc (restore_attempts evs)"
| "restore_attempts (_ # evs) = restore_attempts evs"

section \<open>The checkpoint manager\<close>

text \<open>
  Modelled from the spec: \<open>tf.train.Checkpoint\<close> and \<open>tf.train.CheckpointManager\<close> are
  library classes; the source only constructs them (with \<open>max_to_keep=3\<close>) and calls
  \<open>manager.save()\<close> and \<open>checkpoint.restore(manager.latest_checkpoint)\<close>. Section 4.5 of
  the specification: \<open>save(state)\<close> writes a new checkpoint tagged with a monotonically
  increasing identifier, then deletes the oldest checkpoint(s) beyond the retention
  bound; \<open>restore_latest()\<close> loads the most recent checkpoint if one exists and reports
  that none was found otherwise. The checkpoints on disk are kept oldest first.
\<close>

record 'st manager =
  checkpoints :: "(nat \<times> 'st) list"
  save_counter :: nat
  max_to_keep :: nat

definition save :: "'st \<Rightarrow> 'st manager \<Rightarrow> 'st manager" where
  "save st m =
     (let n = Suc (save_counter m);
          written = checkpoints m @ [(n, st)]
      in m\<lparr>checkpoints := drop (length written - max_to_keep m) written,
            save_counter := n\<rparr>)"

definition restore_latest :: "'st manager \<Rightarrow> 'st option" where
  "restore_latest m =
     (case checkpoints m of [] \<Rightarrow> None | _ # _ \<Rightarrow> Some (snd (last (checkpoints m))))"

fun save_all :: "'st list \<Rightarrow> 'st manager \<Rightarrow> 'st manager" where
  "save_all [] m = m"
| "save_all (st # sts) m = save_all sts (save st m)"

section \<open>The program state and the library operations\<close>

text \<open>
  An image batch is a list of images, an image the list of its pixel values. The two
  networks (weights and optimizer state) and the noise batches are values of the
  library, so their types are parameters.
\<close>

type_synonym image_batch = "real list list"

record ('g, 'd) world =
  generator :: 'g
  discriminator :: 'd
  manager :: "('g \<times> 'd) manager"
  draws :: nat
  trace :: "event list"

text \<open>
  What TensorFlow and the data loader compute, as parameters of the model:
  \<^item> \<open>uniform k\<close>: the \<open>k\<close>-th batch drawn by \<open>tf.random.uniform([batch_size, z_dim], -1, 1)\<close>;
  \<^item> \<open>generator_call g z\<close>: the forward pass \<open>generator(noise)\<close>;
  \<^item> \<open>apply_generator_gradients g d z\<close>: the generator after
    \<open>gen_tape.gradient(gen_loss, ...)\<close> and \<open>generator.optimizer.apply_gradients\<close>, for the
    forward passes recorded with generator \<open>g\<close>, discriminator \<open>d\<close> and noise \<open>z\<close>;
  \<^item> \<open>apply_discriminator_gradients g d z batch\<close>: the discriminator after
    \<open>disc_tape.gradient(disc_loss, ...)\<close> and \<open>discriminator.optimizer.apply_gradients\<close>;
  \<^item> \<open>fid_function real generated\<close>: the Frechet inception distance (a real number here);
  \<^item> \<open>init_generator\<close>, \<open>init_discriminator\<close>: the freshly constructed networks;
  \<^item> \<open>load_image_batch e\<close>: the batches that the dataset yields when it is iterated
    for the \<open>e\<close>-th time (\<open>preprocess.py\<close> is not part of the sources).
\<close>

record ('g, 'd, 'z) tf =
  uniform :: "nat \<Rightarrow> 'z"
  generator_call :: "'g \<Rightarrow> 'z \<Rightarrow> image_batch"
  apply_generator_gradients :: "'g \<Rightarrow> 'd \<Rightarrow> 'z \<Rightarrow> 'g"
  apply_discriminator_gradients :: "'g \<Rightarrow> 'd \<Rightarrow> 'z \<Rightarrow> image_batch \<Rightarrow> 'd"
  fid_function :: "image_batch \<Rightarrow> image_batch \<Rightarrow> real"
  init_generator :: 'g
  init_discriminator :: 'd
  load_image_batch :: "nat \<Rightarrow> image_batch list"

definition manager_save :: "('g, 'd) world \<Rightarrow> ('g, 'd) world" where
  "manager_save w =
     w\<lparr>manager := save (generator w, discriminator w) (manager w),
       trace := trace w @ [ManagerSave]\<rparr>"

section \<open>One epoch of training\<close>

text \<open>
  The body of the loop \<open>for iteration, batch in enumerate(dataset_iterator)\<close> of
  \<open>train\<close>, on the loop variables \<open>cumulative\<close> and \<open>eval_count\<close> and the program state.
  The generator update comes first; \<open>iteration % args.num_gen_updates\<close> and
  \<open>iteration % args.save_every\<close> raise \<open>ZeroDivisionError\<close> for a zero divisor, in this
  order; Python's \<open>%\<close> on ints is \<open>mod\<close> on \<^typ>\<open>int\<close> (the sign of the divisor). The
  discriminator's gradients come from the tape, so from the forward passes made with
  the generator before its update.
\<close>

definition train_iteration ::
  "config \<Rightarrow> ('g, 'd, 'z) tf \<Rightarrow> nat \<Rightarrow> image_batch \<Rightarrow> real \<times> nat \<times> ('g, 'd) world
     \<Rightarrow> error + real \<times> nat \<times> ('g, 'd) world" where
  "train_iteration cfg env iteration batch acc =
     (case acc of (cumulative, eval_count, w) \<Rightarrow>
      let noise = uniform env (draws w);
          gen_output = generator_call env (generator w) noise;
          w1 = w\<lparr>generator := apply_generator_gradients env (generator w) (discriminator w) noise,
                 draws := Suc (draws w),
                 trace := trace w @ [ApplyGenerator iteration]\<rparr>
      in if num_gen_updates cfg = 0 then Inl ZeroDivisionError
         else
           let w2 = (if int iteration mod num_gen_updates cfg = 0
                     then w1\<lparr>discriminator :=
                               apply_discriminator_gradients env (generator w) (discriminator w)
                                 noise batch,
                             trace := trace w1 @ [ApplyDiscriminator iteration]\<rparr>
                     else w1)
           in if save_every cfg = 0 then Inl ZeroDivisionError
              else
                let w3 = (if int iteration mod save_every cfg = 0 then manager_save w2 else w2)
                in if int iteration mod 500 = 0
                   then Inr (cumulative + fid_function env batch gen_output, eval_count + 1,
                             w3\<lparr>trace := trace w3 @ [FidEval iteration]\<rparr>)
                   else Inr (cumulative, eval_count, w3))"

fun train_loop ::
  "config \<Rightarrow> ('g, 'd, 'z) tf \<Rightarrow> nat \<Rightarrow> image_batch list \<Rightarrow> real \<times> nat \<times> ('g, 'd) world
     \<Rightarrow> error + real \<times> nat \<times> ('g, 'd) world" where
  "train_loop cfg env iteration [] acc = Inr acc"
| "train_loop cfg env iteration (batch # rest) acc =
     (case train_iteration cfg env iteration batch acc of
        Inl e \<Rightarrow> Inl e
      | Inr acc' \<Rightarrow> train_loop cfg env (Suc iteration) rest acc')"

text \<open>
  \<open>train\<close> starts with \<open>cumulative = 0\<close> and \<open>eval_count = 0\<close> and returns
  \<open>float(cumulative/eval_count)\<close>. When no score was added both are still the Python
  ints \<open>0\<close>, and \<open>0/0\<close> raises \<open>ZeroDivisionError\<close>.
\<close>

definition train ::
  "config \<Rightarrow> ('g, 'd, 'z) tf \<Rightarrow> image_batch list \<Rightarrow> ('g, 'd) world
     \<Rightarrow> error + real \<times> ('g, 'd) world" where
  "train cfg env dataset_iterator w =
     (case train_loop cfg env 0 dataset_iterator (0, 0, w) of
        Inl e \<Rightarrow> Inl e
      | Inr (cumulative, eval_count, w') \<Rightarrow>
          if eval_count = 0 then Inl ZeroDivisionError
          else Inr (cumulative / real eval_count, w'))"

section \<open>Sampling\<close>

text \<open>
  \<open>test\<close> rescales the generated batch with \<open>((img / 2) - 0.5) * 255\<close>, converts it with
  \<open>astype(np.uint8)\<close> and writes \<open>img[i]\<close> for \<open>i\<close> in \<open>range(0, batch_size)\<close>. The
  conversion of a float to \<open>uint8\<close> truncates towards zero; it is defined when the
  truncated value is in \<open>0..255\<close> and depends on the platform otherwise, which is
  \<open>None\<close> here. \<open>img[i]\<close> raises \<open>IndexError\<close> beyond the batch.
\<close>

definition rescale :: "real \<Rightarrow> real" where
  "rescale x = ((x / 2) - 0.5) * 255"

definition astype_uint8 :: "real \<Rightarrow> pixel" where
  "astype_uint8 x =
     (if - 1 < x \<and> x < 256 then Some (word_of_int (if 0 \<le> x then \<lfloor>x\<rfloor> else \<lceil>x\<rceil>))
      else None)"

fun imwrite_all :: "pixel list list \<Rightarrow> nat list \<Rightarrow> error + event list" where
  "imwrite_all img [] = Inr []"
| "imwrite_all img (i # rest) =
     (if i < length img
      then (case imwrite_all img rest of
              Inl e \<Rightarrow> Inl e
            | Inr evs \<Rightarrow> Inr (Imwrite i (img ! i) # evs))
      else Inl IndexError)"

definition test ::
  "config \<Rightarrow> ('g, 'd, 'z) tf \<Rightarrow> ('g, 'd) world \<Rightarrow> error + ('g, 'd) world" where
  "test cfg env w =
     (let img = generator_call env (generator w) (uniform env (draws w));
          img = map (map rescale) img;
          img = map (map astype_uint8) img
      in case imwrite_all img [0..<nat (batch_size cfg)] of
           Inl e \<Rightarrow> Inl e
         | Inr evs \<Rightarrow> Inr (w\<lparr>draws := Suc (draws w), trace := trace w @ evs\<rparr>))"

section \<open>The main program\<close>

text \<open>
  \<open>main\<close> builds both networks and the manager over the checkpoint directory as it
  finds it (\<open>max_to_keep=3\<close>), restores when \<open>args.restore_checkpoint or args.mode == 'test'\<close>,
  then trains \<open>num_epochs\<close> epochs (saving after each) in mode \<open>train\<close> and samples in
  mode \<open>test\<close>. The device scope and its handler for \<open>RuntimeError\<close> are not modelled:
  the operations run on a device that exists.
\<close>

definition initial_world ::
  "('g, 'd, 'z) tf \<Rightarrow> ('g \<times> 'd) manager \<Rightarrow> ('g, 'd) world" where
  "initial_world env dir =
     \<lparr>generator = init_generator env, discriminator = init_discriminator env,
      manager = dir\<lparr>max_to_keep := 3\<rparr>, draws = 0, trace = []\<rparr>"

definition restore :: "('g, 'd) world \<Rightarrow> ('g, 'd) world" where
  "restore w =
     (case restore_latest (manager w) of
        None \<Rightarrow> w\<lparr>trace := trace w @ [RestoreAttempt False]\<rparr>
      | Some (g, d) \<Rightarrow>
          w\<lparr>generator := g, discriminator := d, trace := trace w @ [RestoreAttempt True]\<rparr>)"

definition maybe_restore :: "config \<Rightarrow> ('g, 'd) world \<Rightarrow> ('g, 'd) world" where
  "maybe_restore cfg w =
     (if restore_checkpoint cfg \<or> mode cfg = ''test'' then restore w else w)"

fun train_epochs ::
  "config \<Rightarrow> ('g, 'd, 'z) tf \<Rightarrow> nat list \<Rightarrow> ('g, 'd) world \<Rightarrow> error + ('g, 'd) world" where
  "train_epochs cfg env [] w = Inr w"
| "train_epochs cfg env (epoch # rest) w =
     (case train cfg env (load_image_batch env epoch) w of
        Inl e \<Rightarrow> Inl e
      | Inr (avg_fid, w') \<Rightarrow> train_epochs cfg env rest (manager_save w'))"

definition run_mode ::
  "config \<Rightarrow> ('g, 'd, 'z) tf \<Rightarrow> ('g, 'd) world \<Rightarrow> error + ('g, 'd) world" where
  "run_mode cfg env w =
     (case (if mode cfg = ''train'' then train_epochs cfg env [0..<nat (num_epochs cfg)] w
            else Inr w) of
        Inl e \<Rightarrow> Inl e
      | Inr w' \<Rightarrow> if mode cfg = ''test'' then test cfg env w' else Inr w')"

definition main ::
  "config \<Rightarrow> ('g, 'd, 'z) tf \<Rightarrow> ('g \<times> 'd) manager \<Rightarrow> error + ('g, 'd) world" where
  "main cfg env dir = run_mode cfg env (maybe_restore cfg (initial_world env dir))"

section \<open>The generator network\<close>

text \<open>
  \<open>Generator_Model.__init__\<close> stacks Keras layers in a \<open>Sequential\<close> model; a layer is
  given by the arguments that the source passes to its constructor. For
  \<open>Conv2DTranspose\<close> these are \<open>filters\<close>, \<open>kernel_size\<close>, \<open>strides\<close>, \<open>padding\<close> and
  \<open>activation\<close>.
\<close>

datatype padding = Same | Valid

datatype activation = Linear | Tanh

datatype layer =
    Dense int
  | BatchNormalization
  | ReLU
  | Reshape "int list"
  | Conv2DTranspose int int "int \<times> int" padding activation

definition generator_model :: "config \<Rightarrow> layer list" where
  "generator_model args =
     [Dense (4 * 4 * 512 * scale_model args),
      BatchNormalization,
      ReLU,
      Reshape [4, 4, 512 * scale_model args],
      Conv2DTranspose (256 * scale_model args) 5 (2, 2) Same Linear,
      BatchNormalization,
      ReLU,
      Conv2DTranspose (128 * scale_model args) 5 (2, 2) Same Linear,
      BatchNormalization,
      ReLU,
      Conv2DTranspose (64 * scale_model args) 5 (2, 2) Same Linear,
      BatchNormalization,
      ReLU,
      Conv2DTranspose 3 5 (2, 2) Same Tanh]"

text \<open>
  Modelled from the spec: the layers themselves are Keras code. Section 4.1 of the
  specification: each upsampling stage doubles the spatial resolution (a transposed
  convolution with stride 2 and padding \<open>same\<close> multiplies height and width by the
  stride), is followed by normalization and a rectifying nonlinearity, and the final
  stage uses \<open>tanh\<close> instead. Shapes are \<open>[batch, ...]\<close>. A dense layer replaces the last
  dimension by its number of units, a reshape keeps the batch dimension and needs the
  same number of elements, normalization and \<open>ReLU\<close> keep the shape; a layer with a
  non-positive width and an input of the wrong rank are rejected.
\<close>

fun output_shape :: "layer \<Rightarrow> int list \<Rightarrow> error + int list" where
  "output_shape (Dense units) shape =
     (if units \<le> 0 \<or> length shape < 2 then Inl ValueError
      else Inr (butlast shape @ [units]))"
| "output_shape BatchNormalization shape = Inr shape"
| "output_shape ReLU shape = Inr shape"
| "output_shape (Reshape target) shape =
     (case shape of
        [] \<Rightarrow> Inl ValueError
      | b # dims \<Rightarrow>
          if prod_list dims = prod_list target then Inr (b # target) else Inl ValueError)"
| "output_shape (Conv2DTranspose filters kernel_size strides pad act) shape =
     (case shape of
        [b, h, w, c] \<Rightarrow>
          if filters \<le> 0 then Inl ValueError
          else (case pad of
                  Same \<Rightarrow> Inr [b, h * fst strides, w * snd strides, filters]
                | Valid \<Rightarrow>
                    Inr [b, h * fst strides + max (kernel_size - fst strides) 0,
                         w * snd strides + max (kernel_size - snd strides) 0, filters])
      | _ \<Rightarrow> Inl ValueError)"

text \<open>
  A tensor is its shape and its elements. What a layer has learned is a parameter:
  \<open>weights k xs i\<close> is element \<open>i\<close> that layer number \<open>k\<close> of the model computes from
  the input elements \<open>xs\<close> before its activation (the affine map of a dense layer, the
  transposed convolution, the normalization). The activation is applied to each
  element.
\<close>

record tensor =
  shape :: "int list"
  elems :: "real list"

type_synonym weights = "nat \<Rightarrow> real list \<Rightarrow> nat \<Rightarrow> real"

fun activate :: "activation \<Rightarrow> real \<Rightarrow> real" where
  "activate Linear x = x"
| "activate Tanh x = tanh x"

definition learned :: "weights \<Rightarrow> nat \<Rightarrow> activation \<Rightarrow> int list \<Rightarrow> tensor \<Rightarrow> tensor" where
  "learned \<theta> k act s t =
     \<lparr>shape = s, elems = map (\<lambda>i. activate act (\<theta> k (elems t) i)) [0..<nat (prod_list s)]\<rparr>"

fun layer_call :: "weights \<Rightarrow> nat \<Rightarrow> layer \<Rightarrow> tensor \<Rightarrow> error + tensor" where
  "layer_call \<theta> k ReLU t = Inr (t\<lparr>elems := map (max 0) (elems t)\<rparr>)"
| "layer_call \<theta> k (Reshape target) t =
     (case output_shape (Reshape target) (shape t) of
        Inl e \<Rightarrow> Inl e
      | Inr s \<Rightarrow> Inr (t\<lparr>shape := s\<rparr>))"
| "layer_call \<theta> k (Conv2DTranspose filters kernel_size strides pad act) t =
     (case output_shape (Conv2DTranspose filters kernel_size strides pad act) (shape t) of
        Inl e \<Rightarrow> Inl e
      | Inr s \<Rightarrow> Inr (learned \<theta> k act s t))"
| "layer_call \<theta> k l t =
     (case output_shape l (shape t) of
        Inl e \<Rightarrow> Inl e
      | Inr s \<Rightarrow> Inr (learned \<theta> k Linear s t))"

fun sequential_call :: "weights \<Rightarrow> nat \<Rightarrow> layer list \<Rightarrow> tensor \<Rightarrow> error + tensor" where
  "sequential_call \<theta> k [] t = Inr t"
| "sequential_call \<theta> k (l # ls) t =
     (case layer_call \<theta> k l t of
        Inl e \<Rightarrow> Inl e
      | Inr t' \<Rightarrow> sequential_call \<theta> (Suc k) ls t')"

fun shape_trace :: "layer list \<Rightarrow> int list \<Rightarrow> error + int list list" where
  "shape_trace [] s = Inr []"
| "shape_trace (l # ls) s =
     (case output_shape l s of
        Inl e \<Rightarrow> Inl e
      | Inr s' \<Rightarrow> (case shape_trace ls s' of Inl e \<Rightarrow> Inl e | Inr ss \<Rightarrow> Inr (s' # ss)))"

text \<open>
  \<open>Generator_Model.call\<close> runs the model, which was built for inputs of shape
  \<open>[None, args.z_dim]\<close>; another input shape is rejected.
\<close>

definition generator_model_call :: "config \<Rightarrow> weights \<Rightarrow> tensor \<Rightarrow> error + tensor" where
  "generator_model_call args \<theta> inputs =
     (case shape inputs of
        [b, z] \<Rightarrow>
          if z = z_dim args then sequential_call \<theta> 0 (generator_model args) inputs
          else Inl ValueError
      | _ \<Rightarrow> Inl ValueError)"

section \<open>Example inputs\<close>

text \<open>
  A small instance of the library operations, for evaluating the program: networks are
  counters of the updates applied to them, the generator emits one image with the two
  pixels \<open>1\<close> and \<open>-1\<close>, every distance is \<open>2\<close>, and the dataset yields three batches.
\<close>

definition example_tf :: "(nat, nat, nat) tf" where
  "example_tf =
     \<lparr>uniform = (\<lambda>k. k),
      generator_call = (\<lambda>g z. [[1, - 1]]),
      apply_generator_gradients = (\<lambda>g d z. Suc g),
      apply_discriminator_gradients = (\<lambda>g d z batch. Suc d),
      fid_function = (\<lambda>real_images generated. 2),
      init_generator = 0,
      init_discriminator = 0,
      load_image_batch = (\<lambda>epoch. [[[0]], [[0]], [[0]]])\<rparr>"

definition empty_dir :: "(nat \<times> nat) manager" where
  "empty_dir = \<lparr>checkpoints = [], save_counter = 0, max_to_keep = 5\<rparr>"

text \<open>A generator whose layers compute zeros, and one noise vector.\<close>

definition zero_weights :: weights where
  "zero_weights = (\<lambda>k xs i. 0)"

definition one_noise_vector :: tensor where
  "one_noise_vector = \<lparr>shape = [1, 100], elems = replicate 100 0\<rparr>"

section \<open>Properties of the training loop\<close>

lemma generator_updates_append:
  "generator_updates (xs @ ys) = generator_updates xs @ generator_updates ys"
  by (induction xs rule: generator_updates.induct) simp_all

lemma discriminator_updates_append:
  "discriminator_updates (xs @ ys) = discriminator_updates xs @ discriminator_updates ys"
  by (induction xs rule: discriminator_updates.induct) simp_all

lemma fid_evaluations_append:
  "fid_evaluations (xs @ ys) = fid_evaluations xs @ fid_evaluations ys"
  by (induction xs rule: fid_evaluations.induct) simp_all

lemma restore_attempts_append:
  "restore_attempts (xs @ ys) = restore_attempts xs + restore_attempts ys"
  by (induction xs rule: restore_attempts.induct) simp_all

lemmas trace_append =
  generator_updates_append discriminator_updates_append fid_evaluations_append
  restore_attempts_append

lemma train_iteration_succeeds:
  assumes "num_gen_updates cfg \<noteq> 0" and "save_every cfg \<noteq> 0"
  shows "\<exists>acc'. train_iteration cfg env i b acc = Inr acc'"
  using assms by (cases acc) (simp add: train_iteration_def Let_def)

lemma train_iteration_generator:
  assumes "train_iteration cfg env i b (c, n, w) = Inr (c', n', w')"
  shows "generator w' =
           apply_generator_gradients env (generator w) (discriminator w) (uniform env (draws w))"
  using assms by (auto simp: train_iteration_def Let_def manager_save_def split: if_splits)

lemma train_iteration_discriminator:
  assumes "train_iteration cfg env i b (c, n, w) = Inr (c', n', w')"
  shows "discriminator w' =
           (if int i mod num_gen_updates cfg = 0
            then apply_discriminator_gradients env (generator w) (discriminator w)
                   (uniform env (draws w)) b
            else discriminator w)"
  using assms by (auto simp: train_iteration_def Let_def manager_save_def split: if_splits)

lemma train_iteration_draws:
  assumes "train_iteration cfg env i b (c, n, w) = Inr (c', n', w')"
  shows "draws w' = Suc (draws w)"
  using assms by (auto simp: train_iteration_def Let_def manager_save_def split: if_splits)

lemma train_iteration_trace:
  assumes "train_iteration cfg env i b (c, n, w) = Inr (c', n', w')"
  shows "generator_updates (trace w') = generator_updates (trace w) @ [i]"
    and "discriminator_updates (trace w') =
           discriminator_updates (trace w) @ (if int i mod num_gen_updates cfg = 0 then [i] else [])"
    and "fid_evaluations (trace w') =
           fid_evaluations (trace w) @ (if int i mod 500 = 0 then [i] else [])"
    and "restore_attempts (trace w') = restore_attempts (trace w)"
  using assms
  by (auto simp: train_iteration_def Let_def manager_save_def trace_append split: if_splits)

lemma train_iteration_count:
  assumes "train_iteration cfg env i b (c, n, w) = Inr (c', n', w')"
  shows "n' = n + (if int i mod 500 = 0 then 1 else 0)"
    and "c' = c + (if int i mod 500 = 0
                   then fid_function env b (generator_call env (generator w) (uniform env (draws w)))
                   else 0)"
  using assms by (auto simp: train_iteration_def Let_def manager_save_def split: if_splits)

lemma train_loop_append:
  "train_loop cfg env i (bs @ cs) acc =
     (case train_loop cfg env i bs acc of
        Inl e \<Rightarrow> Inl e
      | Inr acc' \<Rightarrow> train_loop cfg env (i + length bs) cs acc')"
  by (induction bs arbitrary: i acc) (simp_all split: sum.splits)

lemma train_loop_succeeds:
  assumes "num_gen_updates cfg \<noteq> 0" and "save_every cfg \<noteq> 0"
  shows "\<exists>acc'. train_loop cfg env i bs acc = Inr acc'"
proof (induction bs arbitrary: i acc)
  case Nil
  show ?case by (rule exI [of _ acc]) simp
next
  case (Cons b bs)
  from train_iteration_succeeds [OF assms] obtain acc1
    where "train_iteration cfg env i b acc = Inr acc1" by blast
  moreover from Cons.IH [of "Suc i" acc1] obtain acc2
    where "train_loop cfg env (Suc i) bs acc1 = Inr acc2" by blast
  ultimately show ?case by (intro exI [of _ acc2]) simp
qed

lemma train_loop_trace:
  assumes "train_loop cfg env i bs (c, n, w) = Inr (c', n', w')"
  shows "generator_updates (trace w') = generator_updates (trace w) @ [i..<i + length bs]
       \<and> discriminator_updates (trace w') =
           discriminator_updates (trace w) @
             filter (\<lambda>j. int j mod num_gen_updates cfg = 0) [i..<i + length bs]
       \<and> fid_evaluations (trace w') =
           fid_evaluations (trace w) @ filter (\<lambda>j. int j mod 500 = 0) [i..<i + length bs]
       \<and> restore_attempts (trace w') = restore_attempts (trace w)
       \<and> n' = n + length (filter (\<lambda>j. int j mod 500 = 0) [i..<i + length bs])
       \<and> draws w' = draws w + length bs"
  using assms
proof (induction bs arbitrary: i c n w)
  case Nil
  then show ?case by simp
next
  case (Cons b bs)
  from Cons.prems obtain c1 n1 w1
    where step: "train_iteration cfg env i b (c, n, w) = Inr (c1, n1, w1)"
      and rest: "train_loop cfg env (Suc i) bs (c1, n1, w1) = Inr (c', n', w')"
    by (auto split: sum.splits)
  have up: "[i..<i + length (b # bs)] = i # [Suc i..<Suc i + length bs]"
    by (subst upt_rec) simp
  from Cons.IH [OF rest] train_iteration_trace [OF step] train_iteration_count(1) [OF step]
    train_iteration_draws [OF step]
  show ?case unfolding up by simp
qed

text \<open>
  Claim C1. Take any run of \<open>train\<close> over the batches \<open>bs\<close> followed by one more batch
  \<open>b\<close>, so that \<open>b\<close> is consumed in iteration \<open>length bs\<close>. With non-zero
  \<open>num_gen_updates\<close> and \<open>save_every\<close> (otherwise \<open>%\<close> raises), that iteration applies the
  generator's gradients, and it applies the discriminator's gradients when
  \<open>iteration mod num_gen_updates = 0\<close> and leaves the discriminator as it was otherwise.
  Over the whole run the generator is updated in the iterations \<open>0, 1, ..., length bs\<close>
  and the discriminator exactly in those of them with \<open>iteration mod num_gen_updates = 0\<close>.
\<close>

theorem train_update_cadence:
  assumes "num_gen_updates cfg \<noteq> 0" and "save_every cfg \<noteq> 0"
  shows "\<exists>c n w1 c' n' w2.
           train_loop cfg env 0 bs (0, 0, w) = Inr (c, n, w1) \<and>
           train_loop cfg env 0 (bs @ [b]) (0, 0, w) = Inr (c', n', w2) \<and>
           generator w2 =
             apply_generator_gradients env (generator w1) (discriminator w1)
               (uniform env (draws w1)) \<and>
           discriminator w2 =
             (if int (length bs) mod num_gen_updates cfg = 0
              then apply_discriminator_gradients env (generator w1) (discriminator w1)
                     (uniform env (draws w1)) b
              else discriminator w1) \<and>
           generator_updates (trace w2) = generator_updates (trace w) @ [0..<Suc (length bs)] \<and>
           discriminator_updates (trace w2) =
             discriminator_updates (trace w) @
               filter (\<lambda>i. int i mod num_gen_updates cfg = 0) [0..<Suc (length bs)]"
proof -
  from train_loop_succeeds [OF assms] obtain c n w1
    where before: "train_loop cfg env 0 bs (0, 0, w) = Inr (c, n, w1)"
    by (metis prod_cases3)
  from train_iteration_succeeds [OF assms] obtain c' n' w2
    where step: "train_iteration cfg env (length bs) b (c, n, w1) = Inr (c', n', w2)"
    by (metis prod_cases3)
  have after: "train_loop cfg env 0 (bs @ [b]) (0, 0, w) = Inr (c', n', w2)"
    by (simp add: train_loop_append before step)
  from train_loop_trace [OF after]
  have tr: "generator_updates (trace w2) = generator_updates (trace w) @ [0..<Suc (length bs)]"
    "discriminator_updates (trace w2) =
       discriminator_updates (trace w) @
         filter (\<lambda>i. int i mod num_gen_updates cfg = 0) [0..<Suc (length bs)]"
    by simp_all
  from before after train_iteration_generator [OF step] train_iteration_discriminator [OF step] tr
  show ?thesis by blast
qed

text \<open>
  Two iterations with the default arguments (\<open>num_gen_updates = 2\<close>): the generator is
  updated twice, the discriminator once, in iteration \<open>0\<close>.
\<close>

theorem train_update_cadence_witness:
  "num_gen_updates default_args \<noteq> 0 \<and> save_every default_args \<noteq> 0 \<and>
   (\<exists>c n w1 c' n' w2.
      train_loop default_args example_tf 0 [[[0]]] (0, 0, initial_world example_tf empty_dir)
        = Inr (c, n, w1) \<and>
      train_loop default_args example_tf 0 ([[[0]]] @ [[[0]]]) (0, 0, initial_world example_tf empty_dir)
        = Inr (c', n', w2) \<and>
      generator w1 = 1 \<and> discriminator w1 = 1 \<and>
      generator w2 = 2 \<and> discriminator w2 = 1 \<and>
      generator_updates (trace w2) = [0, 1] \<and>
      discriminator_updates (trace w2) = [0])"
  using train_update_cadence [of default_args example_tf "[[[0]]]"
      "initial_world example_tf empty_dir" "[[0]]"]
  by (simp add: default_args_def example_tf_def empty_dir_def initial_world_def
      train_iteration_def manager_save_def save_def Let_def)

lemma filter_500_upt3: "filter (\<lambda>j. int j mod 500 = 0) [0..<3] = [0]"
  by (simp add: upt_rec)

lemma upt3: "[0..<3] = [0, 1, 2]"
  by (simp add: upt_rec)

text \<open>
  Claim C3. On a data source that yields exactly three batches, with non-zero
  \<open>num_gen_updates\<close> and \<open>save_every\<close>, the loop of \<open>train\<close> runs the iterations
  \<open>0, 1, 2\<close> and ends when the source is exhausted (three noise batches drawn, the
  generator updated three times); the distance is evaluated once, in iteration \<open>0\<close>, so
  \<open>eval_count\<close> is \<open>1\<close>, the division is by a non-zero count and \<open>train\<close> returns the mean
  of the scores it accumulated. Scores are real numbers here; whether a floating-point
  score of the evaluator is finite is outside the model.
\<close>

theorem train_three_batches:
  assumes "length batches = 3" and "num_gen_updates cfg \<noteq> 0" and "save_every cfg \<noteq> 0"
  shows "\<exists>c n w'.
           train_loop cfg env 0 batches (0, 0, w) = Inr (c, n, w') \<and>
           generator_updates (trace w') = generator_updates (trace w) @ [0, 1, 2] \<and>
           draws w' = draws w + 3 \<and>
           fid_evaluations (trace w') = fid_evaluations (trace w) @ [0] \<and>
           n = 1 \<and>
           c = fid_function env (hd batches)
                 (generator_call env (generator w) (uniform env (draws w))) \<and>
           train cfg env batches w = Inr (c / real n, w')"
proof -
  from assms(1) obtain b0 b1 b2 where bs: "batches = [b0, b1, b2]"
    by (auto simp: length_Suc_conv eval_nat_numeral)
  note ok = assms(2,3)
  from train_iteration_succeeds [OF ok] obtain c0 n0 w0
    where s0: "train_iteration cfg env 0 b0 (0, 0, w) = Inr (c0, n0, w0)"
    by (metis prod_cases3)
  from train_iteration_succeeds [OF ok] obtain c1 n1 w1
    where s1: "train_iteration cfg env 1 b1 (c0, n0, w0) = Inr (c1, n1, w1)"
    by (metis prod_cases3)
  from train_iteration_succeeds [OF ok] obtain c2 n2 w2
    where s2: "train_iteration cfg env 2 b2 (c1, n1, w1) = Inr (c2, n2, w2)"
    by (metis prod_cases3)
  have loop: "train_loop cfg env 0 batches (0, 0, w) = Inr (c2, n2, w2)"
    using s0 s1 s2 by (simp add: bs eval_nat_numeral)
  from train_loop_trace [OF loop]
  have tr: "generator_updates (trace w2) = generator_updates (trace w) @ [0, 1, 2]"
    "fid_evaluations (trace w2) = fid_evaluations (trace w) @ [0]"
    "n2 = 1" "draws w2 = draws w + 3"
    by (simp_all add: bs filter_500_upt3 upt3)
  have c2: "c2 = fid_function env b0 (generator_call env (generator w) (uniform env (draws w)))"
    using train_iteration_count(2) [OF s0] train_iteration_count(2) [OF s1]
      train_iteration_count(2) [OF s2]
    by simp
  have "train cfg env batches w = Inr (c2 / real n2, w2)"
    by (simp add: train_def loop tr)
  with loop tr c2 show ?thesis by (simp add: bs)
qed

text \<open>The example dataset has three batches and every score is \<open>2\<close>: the mean is \<open>2\<close>.\<close>

theorem train_three_batches_witness:
  "length (load_image_batch example_tf 0) = 3 \<and> num_gen_updates default_args \<noteq> 0 \<and>
   save_every default_args \<noteq> 0 \<and>
   (\<exists>w'. train default_args example_tf (load_image_batch example_tf 0)
            (initial_world example_tf empty_dir) = Inr (2, w') \<and>
         generator_updates (trace w') = [0, 1, 2] \<and> draws w' = 3)"
  using train_three_batches [of "load_image_batch example_tf 0" default_args example_tf
      "initial_world example_tf empty_dir"]
  by (auto simp: default_args_def example_tf_def empty_dir_def initial_world_def)

text \<open>
  Claim C9. For a data source with at least one batch (and non-zero \<open>num_gen_updates\<close>
  and \<open>save_every\<close>, so that the loop body does not raise), the distance is evaluated in
  iteration \<open>0\<close>, the evaluation count is at least \<open>1\<close> and \<open>train\<close> returns
  \<open>cumulative / eval_count\<close>. Whatever the arguments, the loop ends with a zero count,
  and so reaches the division with it, exactly when the data source is empty; then
  \<open>train\<close> raises \<open>ZeroDivisionError\<close>.
\<close>

theorem fid_evaluated_at_iteration_zero:
  "(batches \<noteq> [] \<and> num_gen_updates cfg \<noteq> 0 \<and> save_every cfg \<noteq> 0 \<longrightarrow>
      (\<exists>c n w'.
         train_loop cfg env 0 batches (0, 0, w) = Inr (c, n, w') \<and>
         fid_evaluations (trace w') =
           fid_evaluations (trace w) @ 0 # filter (\<lambda>i. int i mod 500 = 0) [1..<length batches] \<and>
         1 \<le> n \<and>
         train cfg env batches w = Inr (c / real n, w'))) \<and>
   ((\<exists>c w'. train_loop cfg env 0 batches (0, 0, w) = Inr (c, 0, w')) \<longleftrightarrow> batches = []) \<and>
   train cfg env [] w = Inl ZeroDivisionError"
proof (intro conjI impI)
  assume a: "batches \<noteq> [] \<and> num_gen_updates cfg \<noteq> 0 \<and> save_every cfg \<noteq> 0"
  then have up: "[0..<length batches] = 0 # [1..<length batches]"
    by (subst upt_rec) simp
  from a train_loop_succeeds [of cfg env 0 batches "(0, 0, w)"] obtain c n w'
    where loop: "train_loop cfg env 0 batches (0, 0, w) = Inr (c, n, w')"
    by (metis prod_cases3)
  from train_loop_trace [OF loop]
  have tr: "fid_evaluations (trace w') =
              fid_evaluations (trace w) @ 0 # filter (\<lambda>i. int i mod 500 = 0) [1..<length batches]"
    and n: "1 \<le> n"
    by (simp_all add: up)
  from n have "train cfg env batches w = Inr (c / real n, w')"
    by (simp add: train_def loop)
  with loop tr n
  show "\<exists>c n w'.
         train_loop cfg env 0 batches (0, 0, w) = Inr (c, n, w') \<and>
         fid_evaluations (trace w') =
           fid_evaluations (trace w) @ 0 # filter (\<lambda>i. int i mod 500 = 0) [1..<length batches] \<and>
         1 \<le> n \<and>
         train cfg env batches w = Inr (c / real n, w')"
    by blast
next
  show "(\<exists>c w'. train_loop cfg env 0 batches (0, 0, w) = Inr (c, 0, w')) \<longleftrightarrow> batches = []"
  proof
    assume "\<exists>c w'. train_loop cfg env 0 batches (0, 0, w) = Inr (c, 0, w')"
    then obtain c w' where loop: "train_loop cfg env 0 batches (0, 0, w) = Inr (c, 0, w')"
      by blast
    show "batches = []"
    proof (rule ccontr)
      assume "batches \<noteq> []"
      then have "[0..<length batches] = 0 # [1..<length batches]"
        by (subst upt_rec) simp
      with train_loop_trace [OF loop] show False by simp
    qed
  next
    assume "batches = []"
    then show "\<exists>c w'. train_loop cfg env 0 batches (0, 0, w) = Inr (c, 0, w')"
      by simp
  qed
next
  show "train cfg env [] w = Inl ZeroDivisionError"
    by (simp add: train_def)
qed

text \<open>One batch gives the mean of one score; no batch gives the error.\<close>

theorem fid_evaluated_at_iteration_zero_witness:
  "[[[0]]] \<noteq> ([] :: image_batch list) \<and> num_gen_updates default_args \<noteq> 0 \<and>
   save_every default_args \<noteq> 0 \<and>
   (\<exists>w'. train default_args example_tf [[[0]]] (initial_world example_tf empty_dir) = Inr (2, w') \<and>
         fid_evaluations (trace w') = [0]) \<and>
   train default_args example_tf [] (initial_world example_tf empty_dir) = Inl ZeroDivisionError"
  using fid_evaluated_at_iteration_zero [of "[[[0]]]" default_args example_tf
      "initial_world example_tf empty_dir"]
  by (simp add: default_args_def example_tf_def empty_dir_def initial_world_def
      train_def train_iteration_def manager_save_def save_def Let_def)

section \<open>Properties of sampling\<close>

text \<open>
  Claim C2. The claim is that the rescaling sends \<open>-1\<close> to \<open>0\<close> and \<open>1\<close> to \<open>255\<close>, as
  the comment in \<open>test\<close> says (rescale from \<open>(-1, 1)\<close> to \<open>(0, 255)\<close>). The expression
  \<open>((img / 2) - 0.5) * 255\<close> of the code sends \<open>1\<close> to \<open>0\<close> and \<open>-1\<close> to \<open>-255\<close>: the
  pixel \<open>1\<close> is written as \<open>0\<close>, and the pixel \<open>-1\<close> is outside the range in which the
  conversion to \<open>uint8\<close> is defined. The last conjunct runs \<open>test\<close> on a generator that
  emits one image with these two pixels.
\<close>

theorem test_rescale_sends_one_to_zero:
  "rescale 1 = 0 \<and> rescale (- 1) = - 255 \<and>
   astype_uint8 (rescale 1) = Some 0 \<and> astype_uint8 (rescale (- 1)) = None \<and>
   test (default_args\<lparr>mode := ''test'', batch_size := 1\<rparr>) example_tf
     (initial_world example_tf empty_dir)
   = Inr ((initial_world example_tf empty_dir)
            \<lparr>draws := 1, trace := [Imwrite 0 [Some 0, None]]\<rparr>)"
  by (simp add: rescale_def astype_uint8_def test_def default_args_def example_tf_def
      empty_dir_def initial_world_def)

section \<open>Properties of the checkpoint manager\<close>

lemma save_fields:
  "checkpoints (save st m) =
     drop (length (checkpoints m @ [(Suc (save_counter m), st)]) - max_to_keep m)
       (checkpoints m @ [(Suc (save_counter m), st)])"
  "save_counter (save st m) = Suc (save_counter m)"
  "max_to_keep (save st m) = max_to_keep m"
  by (simp_all add: save_def Let_def)

lemma drop_tail_append:
  "drop (length (drop (length xs - k) xs @ ys) - k) (drop (length xs - k) xs @ ys)
     = drop (length (xs @ ys) - k) (xs @ ys)"
  by (cases "k \<le> length xs") (auto simp: drop_append ac_simps)

lemma save_all_fields:
  "save_counter (save_all sts m) = save_counter m + length sts"
  "max_to_keep (save_all sts m) = max_to_keep m"
  by (induction sts arbitrary: m) (simp_all add: save_fields)

lemma save_all_snoc: "save_all (sts @ [st]) m = save st (save_all sts m)"
  by (induction sts arbitrary: m) simp_all

lemma zip_upt_snoc:
  "zip [a..<a + length (sts @ [st])] (sts @ [st]) = zip [a..<a + length sts] sts @ [(a + length sts, st)]"
  by simp

lemma save_all_checkpoints:
  assumes "sts \<noteq> []" and "a = Suc (save_counter m)"
  shows "checkpoints (save_all sts m) =
     drop (length (checkpoints m @ zip [a..<a + length sts] sts) - max_to_keep m)
       (checkpoints m @ zip [a..<a + length sts] sts)"
  using assms(1)
proof (induction sts rule: rev_induct)
  case Nil
  then show ?case by simp
next
  case (snoc st sts)
  let ?K = "max_to_keep m"
  let ?old = "checkpoints m @ zip [a..<a + length sts] sts"
  let ?e = "(a + length sts, st)"
  have new: "checkpoints m @ zip [a..<a + length (sts @ [st])] (sts @ [st]) = ?old @ [?e]"
    unfolding zip_upt_snoc by simp
  have sv: "checkpoints (save_all (sts @ [st]) m) =
          drop (length (checkpoints (save_all sts m) @ [?e]) - ?K)
            (checkpoints (save_all sts m) @ [?e])"
    unfolding save_all_snoc save_fields save_all_fields assms(2) by simp
  show ?case
  proof (cases "sts = []")
    case True
    then show ?thesis unfolding new sv by simp
  next
    case False
    have ih: "checkpoints (save_all sts m) = drop (length ?old - ?K) ?old"
      by (rule snoc.IH [OF False])
    show ?thesis unfolding new sv ih by (rule drop_tail_append)
  qed
qed

lemma retention_general:
  assumes "max_to_keep m \<le> length sts" and "sts \<noteq> []" and "a = Suc (save_counter m)"
  shows "checkpoints (save_all sts m) =
           drop (length sts - max_to_keep m) (zip [a..<a + length sts] sts)"
  using assms(1) unfolding save_all_checkpoints [OF assms(2,3)] by simp

text \<open>
  Claim C6, on the manager modelled from the specification. After any sequence of more
  than \<open>K = max_to_keep\<close> calls of \<open>save\<close>, from any state of the checkpoint directory,
  exactly \<open>K\<close> checkpoints remain; they hold the \<open>K\<close> states saved last, in the order
  in which they were saved, under the \<open>K\<close> largest identifiers. Each \<open>save\<close> keeps the
  newest \<open>K\<close> of the old checkpoints and the new one, that is, deletes the oldest
  beyond the bound. The bound of the manager that \<open>main\<close> builds is \<open>3\<close>.
\<close>

theorem checkpoint_retention:
  assumes "max_to_keep m < length sts"
  shows "length (checkpoints (save_all sts m)) = max_to_keep m \<and>
         map snd (checkpoints (save_all sts m)) = drop (length sts - max_to_keep m) sts \<and>
         map fst (checkpoints (save_all sts m)) =
           [Suc (save_counter m) + (length sts - max_to_keep m)..<Suc (save_counter m) + length sts] \<and>
         checkpoints (save st m) =
           drop (length (checkpoints m @ [(Suc (save_counter m), st)]) - max_to_keep m)
             (checkpoints m @ [(Suc (save_counter m), st)]) \<and>
         max_to_keep (manager (initial_world env dir)) = 3"
proof -
  from assms have ne: "sts \<noteq> []" and le: "max_to_keep m \<le> length sts" by auto
  define a where "a = Suc (save_counter m)"
  have cp: "checkpoints (save_all sts m) = drop (length sts - max_to_keep m) (zip [a..<a + length sts] sts)"
    by (rule retention_general [OF le ne a_def])
  have l: "length (checkpoints (save_all sts m)) = max_to_keep m"
    using le unfolding cp by simp
  have s: "map snd (checkpoints (save_all sts m)) = drop (length sts - max_to_keep m) sts"
    unfolding cp by (simp add: drop_map [symmetric])
  have "map fst (checkpoints (save_all sts m)) = drop (length sts - max_to_keep m) [a..<a + length sts]"
    unfolding cp by (simp add: drop_map [symmetric])
  also have "\<dots> = [a + (length sts - max_to_keep m)..<a + length sts]"
    by (simp only: drop_upt)
  finally have f: "map fst (checkpoints (save_all sts m)) =
           [Suc (save_counter m) + (length sts - max_to_keep m)..<Suc (save_counter m) + length sts]"
    unfolding a_def .
  have k: "max_to_keep (manager (initial_world env dir)) = 3"
    by (simp add: initial_world_def)
  from l s f save_fields(1) [of st m] k show ?thesis by blast
qed

text \<open>Six saves into the manager of \<open>main\<close>: the last three remain.\<close>

theorem checkpoint_retention_witness:
  "max_to_keep (manager (initial_world example_tf empty_dir)) < length [(1, 1), (2, 1), (3, 2), (4, 2), (5, 3), (6, 3 :: nat)] \<and>
   checkpoints (save_all [(1, 1), (2, 1), (3, 2), (4, 2), (5, 3), (6, 3)]
       (manager (initial_world example_tf empty_dir)))
     = [(4, (4, 2)), (5, (5, 3)), (6, (6, 3))]"
  using checkpoint_retention [of "manager (initial_world example_tf empty_dir)"
      "[(1, 1), (2, 1), (3, 2), (4, 2), (5, 3), (6, 3)]"]
  by (simp add: initial_world_def empty_dir_def save_def Let_def)

lemma save_keeps_new:
  assumes "0 < max_to_keep m"
  shows "checkpoints (save st m) =
           drop (Suc (length (checkpoints m)) - max_to_keep m) (checkpoints m)
             @ [(Suc (save_counter m), st)]"
  using assms by (simp add: save_fields)

lemma restore_latest_snoc: "checkpoints m = cs @ [(n, st)] \<Longrightarrow> restore_latest m = Some st"
  by (cases cs) (simp_all add: restore_latest_def)

lemma restore_latest_max_to_keep: "restore_latest (m\<lparr>max_to_keep := k\<rparr>) = restore_latest m"
  by (cases "checkpoints m") (simp_all add: restore_latest_def)

text \<open>
  Claim C5, on the manager modelled from the specification. With a retention bound of at
  least one, \<open>restore_latest\<close> after \<open>save\<close> returns the saved state itself (equal, so
  within any tolerance); \<open>manager.save()\<close> saves both networks of the program state,
  and a later run of the program that restores from this directory starts from these
  networks.
\<close>

theorem checkpoint_round_trip:
  assumes "0 < max_to_keep (manager w)"
  shows "restore_latest (save st (manager w)) = Some st \<and>
         restore_latest (manager (manager_save w)) = Some (generator w, discriminator w) \<and>
         generator (restore (initial_world env (manager (manager_save w)))) = generator w \<and>
         discriminator (restore (initial_world env (manager (manager_save w)))) = discriminator w"
proof -
  have r: "restore_latest (save st (manager w)) = Some st" for st
    by (rule restore_latest_snoc [OF save_keeps_new [OF assms]])
  have m: "manager (manager_save w) = save (generator w, discriminator w) (manager w)"
    by (simp add: manager_save_def)
  have "restore_latest (manager (initial_world env (manager (manager_save w))))
          = Some (generator w, discriminator w)"
    using r [of "(generator w, discriminator w)"]
    by (simp add: initial_world_def restore_latest_max_to_keep m)
  then have "generator (restore (initial_world env (manager (manager_save w)))) = generator w"
    and "discriminator (restore (initial_world env (manager (manager_save w)))) = discriminator w"
    by (simp_all add: restore_def)
  with r m show ?thesis by simp
qed

text \<open>The manager of \<open>main\<close> keeps three checkpoints, so the last save is restored.\<close>

theorem checkpoint_round_trip_witness:
  "0 < max_to_keep (manager (initial_world example_tf empty_dir)) \<and>
   restore_latest
     (manager (manager_save
        ((initial_world example_tf empty_dir)\<lparr>generator := 7 :: nat, discriminator := 4 :: nat\<rparr>)))
     = Some (7, 4)"
  using checkpoint_round_trip [of "(initial_world example_tf empty_dir)\<lparr>generator := 7 :: nat, discriminator := 4 :: nat\<rparr>"
      "(7, 4)" example_tf]
  by (simp add: initial_world_def empty_dir_def manager_save_def)

section \<open>Properties of the main program\<close>

lemma train_iteration_extends:
  assumes "train_iteration cfg env i b (c, n, w) = Inr (c', n', w')"
  shows "\<exists>evs. trace w' = trace w @ evs \<and> restore_attempts evs = 0"
  using assms
  by (auto simp: train_iteration_def Let_def manager_save_def split: if_splits)

lemma train_loop_extends:
  assumes "train_loop cfg env i bs (c, n, w) = Inr (c', n', w')"
  shows "\<exists>evs. trace w' = trace w @ evs \<and> restore_attempts evs = 0"
  using assms
proof (induction bs arbitrary: i c n w)
  case Nil
  then show ?case by simp
next
  case (Cons b bs)
  from Cons.prems obtain c1 n1 w1
    where step: "train_iteration cfg env i b (c, n, w) = Inr (c1, n1, w1)"
      and rest: "train_loop cfg env (Suc i) bs (c1, n1, w1) = Inr (c', n', w')"
    by (auto split: sum.splits)
  from train_iteration_extends [OF step] obtain evs1
    where e1: "trace w1 = trace w @ evs1" "restore_attempts evs1 = 0" by blast
  from Cons.IH [OF rest] obtain evs2
    where e2: "trace w' = trace w1 @ evs2" "restore_attempts evs2 = 0" by blast
  from e1 e2 have "trace w' = trace w @ (evs1 @ evs2) \<and> restore_attempts (evs1 @ evs2) = 0"
    by (simp add: restore_attempts_append)
  then show ?case by blast
qed

lemma train_extends:
  assumes "train cfg env bs w = Inr (avg, w')"
  shows "\<exists>evs. trace w' = trace w @ evs \<and> restore_attempts evs = 0"
proof -
  from assms obtain c n where "train_loop cfg env 0 bs (0, 0, w) = Inr (c, n, w')"
    by (auto simp: train_def split: sum.splits if_splits)
  then show ?thesis by (rule train_loop_extends)
qed

lemma train_epochs_extends:
  assumes "train_epochs cfg env es w = Inr w'"
  shows "\<exists>evs. trace w' = trace w @ evs \<and> restore_attempts evs = 0"
  using assms
proof (induction es arbitrary: w)
  case Nil
  then show ?case by simp
next
  case (Cons e es)
  from Cons.prems obtain avg w1
    where t: "train cfg env (load_image_batch env e) w = Inr (avg, w1)"
      and rest: "train_epochs cfg env es (manager_save w1) = Inr w'"
    by (auto split: sum.splits)
  from train_extends [OF t] obtain evs1
    where e1: "trace w1 = trace w @ evs1" "restore_attempts evs1 = 0" by blast
  from Cons.IH [OF rest] obtain evs2
    where e2: "trace w' = trace (manager_save w1) @ evs2" "restore_attempts evs2 = 0" by blast
  from e1 e2
  have "trace w' = trace w @ (evs1 @ ManagerSave # evs2) \<and>
        restore_attempts (evs1 @ ManagerSave # evs2) = 0"
    by (simp add: restore_attempts_append manager_save_def)
  then show ?case by blast
qed

lemma imwrite_all_no_restore:
  "imwrite_all img is = Inr evs \<Longrightarrow> restore_attempts evs = 0"
  by (induction "is" arbitrary: evs) (auto split: if_splits sum.splits)

lemma test_extends:
  assumes "test cfg env w = Inr w'"
  shows "\<exists>evs. trace w' = trace w @ evs \<and> restore_attempts evs = 0"
  using assms
  by (auto simp: test_def Let_def split: sum.splits dest: imwrite_all_no_restore)

lemma run_mode_extends:
  assumes "run_mode cfg env w = Inr w'"
  shows "\<exists>evs. trace w' = trace w @ evs \<and> restore_attempts evs = 0"
proof -
  from assms obtain w1
    where a: "(if mode cfg = ''train'' then train_epochs cfg env [0..<nat (num_epochs cfg)] w
               else Inr w) = Inr w1"
      and b: "(if mode cfg = ''test'' then test cfg env w1 else Inr w1) = Inr w'"
    by (auto simp: run_mode_def split: sum.splits)
  from a have "\<exists>evs. trace w1 = trace w @ evs \<and> restore_attempts evs = 0"
    by (cases "mode cfg = ''train''") (auto dest: train_epochs_extends)
  then obtain evs1 where e1: "trace w1 = trace w @ evs1" "restore_attempts evs1 = 0" by blast
  from b have "\<exists>evs. trace w' = trace w1 @ evs \<and> restore_attempts evs = 0"
    by (cases "mode cfg = ''test''") (auto dest: test_extends)
  then obtain evs2 where e2: "trace w' = trace w1 @ evs2" "restore_attempts evs2 = 0" by blast
  from e1 e2 have "trace w' = trace w @ (evs1 @ evs2) \<and> restore_attempts (evs1 @ evs2) = 0"
    by (simp add: restore_attempts_append)
  then show ?thesis by blast
qed

lemma run_mode_restore_attempts:
  assumes "run_mode cfg env w = Inr w'"
  shows "restore_attempts (trace w') = restore_attempts (trace w)"
  using run_mode_extends [OF assms] by (auto simp: restore_attempts_append)

lemma restore_trace:
  "\<exists>found. trace (restore w) = trace w @ [RestoreAttempt found]"
  by (auto simp: restore_def split: option.splits)

lemma restore_not_found:
  "checkpoints (manager w) = [] \<Longrightarrow> restore w = w\<lparr>trace := trace w @ [RestoreAttempt False]\<rparr>"
  by (simp add: restore_def restore_latest_def)

text \<open>
  Claim C8. When restoring is requested (the flag is given or the mode is \<open>test\<close>) and
  the checkpoint directory holds no checkpoint, the restore step changes nothing but the
  trace: both networks are the freshly constructed ones, and \<open>main\<close> goes on as it does
  from fresh parameters. In every run that completes there is exactly one restore
  attempt, and it comes before every training and sampling event. That restoring from
  no checkpoint is not an error is the manager's behaviour as the specification gives it.
\<close>

theorem restore_without_checkpoint:
  assumes "checkpoints dir = []" and "restore_checkpoint cfg \<or> mode cfg = ''test''"
  shows "maybe_restore cfg (initial_world env dir) =
           (initial_world env dir)\<lparr>trace := [RestoreAttempt False]\<rparr> \<and>
         generator (maybe_restore cfg (initial_world env dir)) = init_generator env \<and>
         discriminator (maybe_restore cfg (initial_world env dir)) = init_discriminator env \<and>
         main cfg env dir =
           run_mode cfg env ((initial_world env dir)\<lparr>trace := [RestoreAttempt False]\<rparr>) \<and>
         (\<forall>w. main cfg env dir = Inr w \<longrightarrow>
            (\<exists>evs. trace w = RestoreAttempt False # evs \<and> restore_attempts evs = 0))"
proof -
  have r: "maybe_restore cfg (initial_world env dir) =
             (initial_world env dir)\<lparr>trace := [RestoreAttempt False]\<rparr>"
    using assms by (simp add: maybe_restore_def restore_not_found initial_world_def)
  have m: "main cfg env dir =
             run_mode cfg env ((initial_world env dir)\<lparr>trace := [RestoreAttempt False]\<rparr>)"
    by (simp add: main_def r)
  have t: "\<exists>evs. trace w = RestoreAttempt False # evs \<and> restore_attempts evs = 0"
    if "main cfg env dir = Inr w" for w
    using run_mode_extends [of cfg env _ w] that unfolding m by fastforce
  from r m t show ?thesis by (simp add: initial_world_def)
qed

text \<open>Sampling one image in mode \<open>test\<close> from an empty checkpoint directory.\<close>

theorem restore_without_checkpoint_witness:
  "checkpoints empty_dir = [] \<and>
   (restore_checkpoint (default_args\<lparr>mode := ''test'', batch_size := 1\<rparr>) \<or>
    mode (default_args\<lparr>mode := ''test'', batch_size := 1\<rparr>) = ''test'') \<and>
   main (default_args\<lparr>mode := ''test'', batch_size := 1\<rparr>) example_tf empty_dir =
     Inr \<lparr>generator = 0, discriminator = 0,
          manager = \<lparr>checkpoints = [], save_counter = 0, max_to_keep = 3\<rparr>,
          draws = 1, trace = [RestoreAttempt False, Imwrite 0 [Some 0, None]]\<rparr>"
  using restore_without_checkpoint [of empty_dir "default_args\<lparr>mode := ''test'', batch_size := 1\<rparr>"
      example_tf]
  by (simp add: default_args_def example_tf_def empty_dir_def initial_world_def run_mode_def
      test_def rescale_def astype_uint8_def)

text \<open>
  Claim C10. In mode \<open>test\<close> the program restores whatever the flag says; in mode
  \<open>train\<close> it restores exactly when the flag is given. A restore is one more restore
  attempt in the trace, so a completed run in mode \<open>test\<close> has made one attempt, and a
  completed run in mode \<open>train\<close> one or none, as the flag says.
\<close>

theorem test_mode_restores_regardless_of_flag:
  fixes w :: "('g, 'd) world" and env :: "('g, 'd, 'z) tf"
  shows
  "maybe_restore (cfg\<lparr>mode := ''test''\<rparr>) w = restore w \<and>
   maybe_restore (cfg\<lparr>mode := ''train''\<rparr>) w = (if restore_checkpoint cfg then restore w else w) \<and>
   restore_attempts (trace (restore w)) = Suc (restore_attempts (trace w)) \<and>
   (\<forall>w'. main (cfg\<lparr>mode := ''test''\<rparr>) env dir = Inr w' \<longrightarrow> restore_attempts (trace w') = 1) \<and>
   (\<forall>w'. main (cfg\<lparr>mode := ''train''\<rparr>) env dir = Inr w' \<longrightarrow>
      restore_attempts (trace w') = (if restore_checkpoint cfg then 1 else 0))"
proof -
  have a: "maybe_restore (cfg\<lparr>mode := ''test''\<rparr>) w = restore w" for w :: "('g, 'd) world"
    by (simp add: maybe_restore_def)
  have b: "maybe_restore (cfg\<lparr>mode := ''train''\<rparr>) w = (if restore_checkpoint cfg then restore w else w)"
    for w :: "('g, 'd) world"
    by (simp add: maybe_restore_def)
  have c: "restore_attempts (trace (restore w)) = Suc (restore_attempts (trace w))"
    for w :: "('g, 'd) world"
    using restore_trace [of w] by (auto simp: restore_attempts_append)
  have i: "restore_attempts (trace (initial_world env dir)) = 0"
    by (simp add: initial_world_def)
  have d: "restore_attempts (trace w') = 1"
    if "main (cfg\<lparr>mode := ''test''\<rparr>) env dir = Inr w'" for w'
    using run_mode_restore_attempts [of "cfg\<lparr>mode := ''test''\<rparr>" env _ w']
      that c [of "initial_world env dir"] i
    by (simp add: main_def a)
  have e: "restore_attempts (trace w') = (if restore_checkpoint cfg then 1 else 0)"
    if "main (cfg\<lparr>mode := ''train''\<rparr>) env dir = Inr w'" for w'
    using run_mode_restore_attempts [of "cfg\<lparr>mode := ''train''\<rparr>" env _ w']
      that c [of "initial_world env dir"] i
    by (simp add: main_def b split: if_splits)
  from a b c d e show ?thesis by blast
qed

text \<open>Mode \<open>test\<close> without the flag: one restore attempt.\<close>

theorem test_mode_restores_regardless_of_flag_witness:
  "\<not> restore_checkpoint (default_args\<lparr>batch_size := 1\<rparr>) \<and>
   (\<exists>w'. main (default_args\<lparr>batch_size := 1, mode := ''test''\<rparr>) example_tf empty_dir = Inr w' \<and>
         restore_attempts (trace w') = 1)"
  using test_mode_restores_regardless_of_flag [of "default_args\<lparr>batch_size := 1\<rparr>" _ example_tf
      empty_dir]
  by (simp add: default_args_def example_tf_def empty_dir_def initial_world_def run_mode_def
      test_def rescale_def astype_uint8_def main_def maybe_restore_def restore_def
      restore_latest_def)

section \<open>Properties of the generator network\<close>

lemma layer_call_defined:
  "output_shape l (shape t) = Inr s \<Longrightarrow> \<exists>t'. layer_call \<theta> k l t = Inr t' \<and> shape t' = s"
  by (cases l) (auto simp: learned_def split: sum.splits)

lemma sequential_call_defined:
  "shape_trace ls (shape t) = Inr ss \<Longrightarrow>
   \<exists>t'. sequential_call \<theta> k ls t = Inr t' \<and> shape t' = last (shape t # ss)"
proof (induction ls arbitrary: t k ss)
  case Nil
  then show ?case by simp
next
  case (Cons l ls)
  from Cons.prems obtain s' ss' where s': "output_shape l (shape t) = Inr s'"
    and tr: "shape_trace ls s' = Inr ss'" and ss: "ss = s' # ss'"
    by (auto split: sum.splits)
  from layer_call_defined [OF s'] obtain t1
    where t1: "layer_call \<theta> k l t = Inr t1" "shape t1 = s'" by blast
  from Cons.IH [of t1 ss' "Suc k"] tr t1 obtain t'
    where "sequential_call \<theta> (Suc k) ls t1 = Inr t'" "shape t' = last (shape t1 # ss')"
    by auto
  with t1 ss show ?case by simp
qed

lemma sequential_call_snoc:
  "sequential_call \<theta> k (ls @ [l]) t =
     (case sequential_call \<theta> k ls t of
        Inl e \<Rightarrow> Inl e
      | Inr t' \<Rightarrow> layer_call \<theta> (k + length ls) l t')"
  by (induction ls arbitrary: k t) (simp_all split: sum.splits)

lemma tanh_layer_range:
  assumes "layer_call \<theta> k (Conv2DTranspose filters kernel_size strides pad Tanh) t = Inr t'"
  shows "length (elems t') = nat (prod_list (shape t'))"
    and "\<forall>v \<in> set (elems t'). - 1 \<le> v \<and> v \<le> 1"
proof -
  from assms obtain s where t': "t' = learned \<theta> k Tanh s t"
    by (auto split: sum.splits)
  show "length (elems t') = nat (prod_list (shape t'))"
    by (simp add: t' learned_def)
  have "- 1 \<le> tanh x \<and> tanh x \<le> 1" for x :: real
    using tanh_real_gt_neg1 [of x] tanh_real_lt_1 [of x] by simp
  then show "\<forall>v \<in> set (elems t'). - 1 \<le> v \<and> v \<le> 1"
    by (auto simp: t' learned_def)
qed

lemma generator_shape_trace:
  assumes "0 < scale_model args"
  shows "shape_trace (generator_model args) [B, z] =
     Inr [[B, 4 * 4 * 512 * scale_model args],
          [B, 4 * 4 * 512 * scale_model args],
          [B, 4 * 4 * 512 * scale_model args],
          [B, 4, 4, 512 * scale_model args],
          [B, 8, 8, 256 * scale_model args],
          [B, 8, 8, 256 * scale_model args],
          [B, 8, 8, 256 * scale_model args],
          [B, 16, 16, 128 * scale_model args],
          [B, 16, 16, 128 * scale_model args],
          [B, 16, 16, 128 * scale_model args],
          [B, 32, 32, 64 * scale_model args],
          [B, 32, 32, 64 * scale_model args],
          [B, 32, 32, 64 * scale_model args],
          [B, 64, 64, 3]]"
  using assms by (simp add: generator_model_def)

text \<open>
  Claim C7. For every latent dimensionality and batch size, and a positive width
  multiplier \<open>scale_model\<close>, the forward pass of the generator on an input of shape
  \<open>[B, z_dim]\<close> succeeds with an output of shape \<open>[B, 64, 64, 3]\<close>, which has
  \<open>B * 64 * 64 * 3\<close> elements, each of them in \<open>[-1, 1]\<close> as a value of \<open>tanh\<close>. The
  shapes after the layers go from \<open>4 x 4\<close> after the reshape through \<open>8 x 8\<close>,
  \<open>16 x 16\<close> and \<open>32 x 32\<close> to \<open>64 x 64\<close>: four doublings. Values are real numbers here.
\<close>

theorem generator_output_shape_and_range:
  assumes "0 < scale_model args" and "shape inputs = [B, z_dim args]"
  shows "(\<exists>out.
            generator_model_call args \<theta> inputs = Inr out \<and>
            shape out = [B, 64, 64, 3] \<and>
            length (elems out) = nat (B * 64 * 64 * 3) \<and>
            (\<forall>v \<in> set (elems out). - 1 \<le> v \<and> v \<le> 1)) \<and>
         shape_trace (generator_model args) (shape inputs) =
           Inr [[B, 4 * 4 * 512 * scale_model args],
                [B, 4 * 4 * 512 * scale_model args],
                [B, 4 * 4 * 512 * scale_model args],
                [B, 4, 4, 512 * scale_model args],
                [B, 8, 8, 256 * scale_model args],
                [B, 8, 8, 256 * scale_model args],
                [B, 8, 8, 256 * scale_model args],
                [B, 16, 16, 128 * scale_model args],
                [B, 16, 16, 128 * scale_model args],
                [B, 16, 16, 128 * scale_model args],
                [B, 32, 32, 64 * scale_model args],
                [B, 32, 32, 64 * scale_model args],
                [B, 32, 32, 64 * scale_model args],
                [B, 64, 64, 3]]"
proof -
  note tr = generator_shape_trace [OF assms(1), of B "z_dim args"]
  from sequential_call_defined [of "generator_model args" inputs _ \<theta> 0] tr assms(2)
  obtain out where out: "sequential_call \<theta> 0 (generator_model args) inputs = Inr out"
    and sh: "shape out = [B, 64, 64, 3]"
    by auto
  have call: "generator_model_call args \<theta> inputs = Inr out"
    by (simp add: generator_model_call_def assms(2) out)
  have split: "generator_model args =
                 butlast (generator_model args) @ [Conv2DTranspose 3 5 (2, 2) Same Tanh]"
    by (simp add: generator_model_def)
  from out obtain t where
    last: "layer_call \<theta> (0 + length (butlast (generator_model args)))
             (Conv2DTranspose 3 5 (2, 2) Same Tanh) t = Inr out"
    by (subst (asm) split) (auto simp: sequential_call_snoc split: sum.splits)
  from tanh_layer_range [OF last] sh
  have len: "length (elems out) = nat (B * 64 * 64 * 3)"
    and range: "\<forall>v \<in> set (elems out). - 1 \<le> v \<and> v \<le> 1"
    by (simp_all add: mult.assoc)
  from call sh len range have "\<exists>out.
            generator_model_call args \<theta> inputs = Inr out \<and>
            shape out = [B, 64, 64, 3] \<and>
            length (elems out) = nat (B * 64 * 64 * 3) \<and>
            (\<forall>v \<in> set (elems out). - 1 \<le> v \<and> v \<le> 1)"
    by blast
  with tr assms(2) show ?thesis by simp
qed

text \<open>One noise vector of the default dimensionality \<open>100\<close> gives one image.\<close>

theorem generator_output_shape_and_range_witness:
  "0 < scale_model default_args \<and> shape one_noise_vector = [1, z_dim default_args] \<and>
   (\<exists>out. generator_model_call default_args zero_weights one_noise_vector = Inr out \<and>
          shape out = [1, 64, 64, 3] \<and> length (elems out) = 12288 \<and>
          (\<forall>v \<in> set (elems out). - 1 \<le> v \<and> v \<le> 1))"
  using generator_output_shape_and_range [of default_args one_noise_vector 1 zero_weights]
  by (auto simp: default_args_def one_noise_vector_def)

end
